theory Spec2Isabelle
  imports Complex_Main
begin

section \<open>Data model of \<open>rmrl/document.py\<close>\<close>

text \<open>
  Python floats are modelled as \<^typ>\<open>real\<close> (exact arithmetic, no rounding), Python
  ints as \<^typ>\<open>int\<close>, strings as \<^typ>\<open>string\<close>. The named tuples \<open>Segment\<close>,
  \<open>Stroke\<close> and \<open>Layer\<close> come from \<open>rmrl.lines\<close>; their fields are taken
  from the constructor calls and the tuple unpackings in \<open>document.py\<close>.
\<close>

text \<open>\<open>rmscene.scene_items.Point\<close>: a raw device-space sample.\<close>

record point =
  p_x :: real
  p_y :: real
  p_speed :: real
  p_direction :: real
  p_width :: real
  p_pressure :: real

text \<open>\<open>Segment(x, y, speed, direction, width, pressure)\<close>.\<close>

record segment =
  seg_x :: real
  seg_y :: real
  seg_speed :: real
  seg_direction :: real
  seg_width :: real
  seg_pressure :: real

text \<open>
  \<open>Stroke\<close>, unpacked in \<open>paint_strokes\<close> as
  \<open>pen, color, unk1, width, unk2, segments\<close>. The two unknown fields are \<open>None\<close>
  for strokes built by \<open>get_layers\<close>.
\<close>

record stroke =
  st_pen :: int
  st_color :: int
  st_unk1 :: "real option"
  st_width :: real
  st_unk2 :: "real option"
  st_segments :: "segment list"

text \<open>\<open>Layer(strokes, name)\<close>, unpacked in \<open>load_layers\<close> as \<open>layerstrokes, layer_name\<close>.\<close>

record layer =
  l_strokes :: "stroke list"
  l_name :: string

text \<open>The payload \<open>block.item.value\<close> of a line item.\<close>

record line_value =
  lv_color :: int
  lv_tool :: int
  lv_points :: "point list"
  lv_thickness_scale :: real

text \<open>
  What \<open>rmscene.read_blocks\<close> yields: a \<open>SceneLineItemBlock\<close> with its optional
  value, a \<open>TreeNodeBlock\<close> with \<open>block.group.label.value\<close>, or a block of any
  other class, carried as the text of \<open>block.__class__\<close>.
\<close>

datatype block =
    SceneLineItemBlock "line_value option"
  | TreeNodeBlock string
  | OtherBlock string

section \<open>The version 6 adapter: \<open>DocumentPage.get_layers\<close>\<close>

definition to_segment :: "point \<Rightarrow> segment" where
  "to_segment pt =
     \<lparr> seg_x = p_x pt * 0.7 + 1404 / 2.0 - 40,
       seg_y = p_y pt * 0.7,
       seg_speed = p_speed pt,
       seg_direction = p_direction pt,
       seg_width = p_width pt / 4.0,
       seg_pressure = p_pressure pt \<rparr>"

definition make_stroke :: "line_value \<Rightarrow> stroke" where
  "make_stroke v =
     \<lparr> st_pen = lv_tool v, st_color = lv_color v, st_unk1 = None,
       st_width = lv_thickness_scale v, st_unk2 = None,
       st_segments = map to_segment (lv_points v) \<rparr>"

text \<open>
  The loop state of \<open>get_layers\<close>: the list \<open>layers\<close>, \<open>current_layer\<close>,
  \<open>current_strokes\<close>, and the lines printed so far.
\<close>

record gl_state =
  layers :: "layer list"
  current_layer :: string
  current_strokes :: "stroke list"
  printed :: "string list"

fun get_layers_step :: "gl_state \<Rightarrow> block \<Rightarrow> gl_state" where
  "get_layers_step s (SceneLineItemBlock None) = s"
| "get_layers_step s (SceneLineItemBlock (Some v)) =
     s\<lparr>current_strokes := current_strokes s @ [make_stroke v]\<rparr>"
| "get_layers_step s (TreeNodeBlock label) =
     (if current_layer s = label then s
      else s\<lparr>layers := layers s @ [\<lparr>l_strokes = current_strokes s, l_name = current_layer s\<rparr>],
             current_layer := label,
             current_strokes := []\<rparr>)"
| "get_layers_step s (OtherBlock cls) =
     s\<lparr>printed := printed s @ [''warning: not converting block: '' @ cls]\<rparr>"

fun get_layers_loop :: "gl_state \<Rightarrow> block list \<Rightarrow> gl_state" where
  "get_layers_loop s [] = s"
| "get_layers_loop s (b # bs) = get_layers_loop (get_layers_step s b) bs"

definition gl_init :: gl_state where
  "gl_init = \<lparr>layers = [], current_layer = [], current_strokes = [], printed = []\<rparr>"

text \<open>The list \<open>layers\<close> after the final append, before the slice \<open>layers[1:]\<close>.\<close>

definition get_layers_sealed :: "block list \<Rightarrow> layer list" where
  "get_layers_sealed blocks =
     (let s = get_layers_loop gl_init blocks
      in layers s @ [\<lparr>l_strokes = current_strokes s, l_name = current_layer s\<rparr>])"

definition get_layers :: "block list \<Rightarrow> layer list" where
  "get_layers blocks = drop 1 (get_layers_sealed blocks)"

definition get_layers_printed :: "block list \<Rightarrow> string list" where
  "get_layers_printed blocks = printed (get_layers_loop gl_init blocks)"

section \<open>Errors\<close>

text \<open>
  The exceptions the modelled code can raise. \<open>FormatMismatch\<close> is the error kind the
  specification names; no path of \<open>document.py\<close> raises it, and it is here so that
  statements about it can be written.
\<close>

datatype py_error =
    IndexError
  | UnboundLocalError
  | AssertionError
  | FileNotFoundError
  | TypeError
  | FormatMismatch

text \<open>Python's \<open>xs[i]\<close> on a list: a negative index counts from the end.\<close>

definition py_index :: "'a list \<Rightarrow> int \<Rightarrow> py_error + 'a" where
  "py_index xs i =
     (if 0 \<le> i \<and> i < int (length xs) then Inr (xs ! nat i)
      else if i < 0 \<and> - int (length xs) \<le> i then Inr (xs ! nat (int (length xs) + i))
      else Inl IndexError)"

section \<open>Annotation clustering: \<open>DocumentPageLayer.get_grouped_annotations\<close>\<close>

text \<open>
  The entries of \<open>annot_paths\<close> are pairs \<open>(annotype, path)\<close>. The path objects
  belong to the drawing backend; the code calls \<open>intersects\<close>, \<open>united\<close> and
  \<open>boundingRect\<close> on them, which are parameters here.

  \<open>fit_group\<close> is the inner loop over \<open>enumerate(newset)\<close>: \<open>Some\<close> of the
  updated \<open>newset\<close> when \<open>did_fit\<close> becomes true, \<open>None\<close> otherwise.
\<close>

fun fit_group ::
  "('g \<Rightarrow> 'g \<Rightarrow> bool) \<Rightarrow> ('g \<Rightarrow> 'g \<Rightarrow> 'g) \<Rightarrow> 'k \<times> 'g \<Rightarrow> ('k \<times> 'g) list
     \<Rightarrow> ('k \<times> 'g) list option" where
  "fit_group intersects united p [] = None"
| "fit_group intersects united p (g # gs) =
     (if fst g \<noteq> fst p then map_option ((#) g) (fit_group intersects united p gs)
      else if intersects (snd p) (snd g) then Some ((fst p, united (snd g) (snd p)) # gs)
      else map_option ((#) g) (fit_group intersects united p gs))"

text \<open>The outer loop \<open>for p in pathset\<close>, with \<open>newset\<close> as accumulator.\<close>

fun grouping_pass ::
  "('g \<Rightarrow> 'g \<Rightarrow> bool) \<Rightarrow> ('g \<Rightarrow> 'g \<Rightarrow> 'g) \<Rightarrow> ('k \<times> 'g) list \<Rightarrow> ('k \<times> 'g) list
     \<Rightarrow> ('k \<times> 'g) list" where
  "grouping_pass intersects united newset [] = newset"
| "grouping_pass intersects united newset (p # ps) =
     grouping_pass intersects united
       (case fit_group intersects united p newset of
          Some fitted \<Rightarrow> fitted
        | None \<Rightarrow> newset @ [p]) ps"

lemma fit_group_length:
  "fit_group I U p gs = Some ns \<Longrightarrow> length ns = length gs"
  by (induction gs arbitrary: ns) (auto split: if_splits)

lemma grouping_pass_length_le:
  "length (grouping_pass I U ns ps) \<le> length ns + length ps"
proof (induction ps arbitrary: ns)
  case Nil
  show ?case by simp
next
  case (Cons p ps)
  show ?case
  proof (cases "fit_group I U p ns")
    case None
    then show ?thesis using Cons.IH [of "ns @ [p]"] by simp
  next
    case (Some fitted)
    then show ?thesis using Cons.IH [of fitted] fit_group_length [OF Some] by simp
  qed
qed

lemma grouping_pass_shrinks:
  assumes "newset = grouping_pass I U [] pathset" and "length newset \<noteq> length pathset"
  shows "length newset < length pathset"
  using assms grouping_pass_length_le [of I U "[]" pathset] by simp

text \<open>
  \<open>grouping_func\<close> calls itself while a pass made the list shorter. A pass never
  makes it longer, so the recursion ends. (Python's recursion limit is not modelled.)
\<close>

function grouping_func ::
  "('g \<Rightarrow> 'g \<Rightarrow> bool) \<Rightarrow> ('g \<Rightarrow> 'g \<Rightarrow> 'g) \<Rightarrow> ('k \<times> 'g) list \<Rightarrow> ('k \<times> 'g) list" where
  "grouping_func intersects united pathset =
     (let newset = grouping_pass intersects united [] pathset
      in if length newset \<noteq> length pathset
         then grouping_func intersects united newset
         else newset)"
  by pat_completeness auto
termination
  by (relation "measure (\<lambda>(I, U, ps). length ps)") (simp_all add: grouping_pass_shrinks)

declare grouping_func.simps [simp del]

text \<open>The number of times \<open>grouping_func\<close> is entered: the same recursion, counting.\<close>

function grouping_calls ::
  "('g \<Rightarrow> 'g \<Rightarrow> bool) \<Rightarrow> ('g \<Rightarrow> 'g \<Rightarrow> 'g) \<Rightarrow> ('k \<times> 'g) list \<Rightarrow> nat" where
  "grouping_calls intersects united pathset =
     (let newset = grouping_pass intersects united [] pathset
      in if length newset \<noteq> length pathset
         then Suc (grouping_calls intersects united newset)
         else 1)"
  by pat_completeness auto
termination
  by (relation "measure (\<lambda>(I, U, ps). length ps)") (simp_all add: grouping_pass_shrinks)

declare grouping_calls.simps [simp del]

text \<open>A rectangle \<open>(x, y, width, height)\<close>, as \<open>boundingRect\<close> returns it.\<close>

type_synonym rect = "real \<times> real \<times> real \<times> real"

text \<open>An exported annotation \<open>(annotype, minX, minY, maxX, maxY)\<close>.\<close>

type_synonym 'k annot = "'k \<times> real \<times> real \<times> real \<times> real"

type_synonym rgb = "real option \<times> real option \<times> real option"

text \<open>
  \<open>DocumentPageLayer\<close>. \<open>strokes\<close> is \<open>None\<close> until the caller sets it;
  \<open>annot_paths\<close> starts empty.
\<close>

record ('k, 'g) document_page_layer =
  dl_name :: string
  dl_colors :: "rgb list"
  dl_highlight_colors :: "rgb list"
  dl_strokes :: "stroke list option"
  dl_annot_paths :: "('k \<times> 'g) list"

definition annot_of :: "('g \<Rightarrow> rect) \<Rightarrow> 'k \<times> 'g \<Rightarrow> 'k annot" where
  "annot_of boundingRect p =
     (case boundingRect (snd p) of (x, y, w, h) \<Rightarrow> (fst p, x, y, x + w, y + h))"

definition get_grouped_annotations ::
  "('g \<Rightarrow> 'g \<Rightarrow> bool) \<Rightarrow> ('g \<Rightarrow> 'g \<Rightarrow> 'g) \<Rightarrow> ('g \<Rightarrow> rect) \<Rightarrow>
     ('k, 'g) document_page_layer \<Rightarrow> string \<times> 'k annot list" where
  "get_grouped_annotations intersects united boundingRect self =
     (let grouped = grouping_func intersects united (dl_annot_paths self);
          annot_rects = map (annot_of boundingRect) grouped
      in (dl_name self, annot_rects))"

subsection \<open>A geometry to run the clustering on\<close>

text \<open>
  A region is a finite union of axis-parallel rectangles with positive area. Two regions
  intersect when two of their rectangles share interior points, the union of two regions
  has the rectangles of both, and the bounding rectangle of a region spans the least and
  the greatest coordinates of its rectangles (the null rectangle for the empty region).
\<close>

type_synonym region = "rect list"

definition rect_intersects :: "rect \<Rightarrow> rect \<Rightarrow> bool" where
  "rect_intersects r s =
     (case r of (x1, y1, w1, h1) \<Rightarrow> case s of (x2, y2, w2, h2) \<Rightarrow>
        x1 < x2 + w2 \<and> x2 < x1 + w1 \<and> y1 < y2 + h2 \<and> y2 < y1 + h1)"

definition region_intersects :: "region \<Rightarrow> region \<Rightarrow> bool" where
  "region_intersects a b = list_ex (\<lambda>r. list_ex (rect_intersects r) b) a"

definition region_united :: "region \<Rightarrow> region \<Rightarrow> region" where
  "region_united a b = a @ b"

definition region_boundingRect :: "region \<Rightarrow> rect" where
  "region_boundingRect a =
     (case a of
        [] \<Rightarrow> (0, 0, 0, 0)
      | r # rs \<Rightarrow>
          (let x0 = fold min (map (\<lambda>(x, y, w, h). x) rs) ((\<lambda>(x, y, w, h). x) r);
               y0 = fold min (map (\<lambda>(x, y, w, h). y) rs) ((\<lambda>(x, y, w, h). y) r);
               x1 = fold max (map (\<lambda>(x, y, w, h). x + w) rs) ((\<lambda>(x, y, w, h). x + w) r);
               y1 = fold max (map (\<lambda>(x, y, w, h). y + h) rs) ((\<lambda>(x, y, w, h). y + h) r)
           in (x0, y0, x1 - x0, y1 - y0)))"

text \<open>Two exported boxes \<open>(minX, minY, maxX, maxY)\<close> overlap.\<close>

definition boxes_overlap :: "'k annot \<Rightarrow> 'k annot \<Rightarrow> bool" where
  "boxes_overlap a b =
     (case a of (ka, ax0, ay0, ax1, ay1) \<Rightarrow> case b of (kb, bx0, by0, bx1, by1) \<Rightarrow>
        ax0 < bx1 \<and> bx0 < ax1 \<and> ay0 < by1 \<and> by0 < ay1)"

section \<open>Pen dispatch: \<open>DocumentPageLayer.paint_strokes\<close>\<close>

text \<open>The two colour tables set by \<open>DocumentPageLayer.__init__\<close>.\<close>

definition colors :: "rgb list" where
  "colors =
     [ (Some (56/255), Some (57/255), Some (56/255)),
       (Some 0.5, Some 0.5, Some 0.5),
       (Some 1, Some 1, Some 1),
       (Some 1, Some 1, Some 0),
       (Some 0, Some 1, Some 0),
       (Some 1, Some 0, Some 1),
       (Some (52/255), Some (120/255), Some (247/255)),
       (Some (228/255), Some (95/255), Some (89/255)) ]"

definition highlight_colors :: "rgb list" where
  "highlight_colors =
     [ (None, None, None),
       (Some (248/255), Some (241/255), Some (36/255)),
       (None, None, None),
       (Some (248/255), Some (241/255), Some (36/255)),
       (Some (183/255), Some (248/255), Some (73/255)),
       (Some (248/255), Some (79/255), Some (145/255)) ]"

definition DocumentPageLayer :: "string \<Rightarrow> ('k, 'g) document_page_layer" where
  "DocumentPageLayer name =
     \<lparr> dl_name = name, dl_colors = colors, dl_highlight_colors = highlight_colors,
       dl_strokes = None, dl_annot_paths = [] \<rparr>"

text \<open>
  The pen classes of the package \<open>rmrl.pens\<close>. The code tells \<open>GenericPen\<close> and
  \<open>HighlighterPen\<close> from the rest; any other class is given by its name.
  \<open>pens.PEN_MAPPING\<close> is a parameter: a dictionary from pen codes to classes.
\<close>

datatype penclass = GenericPen | HighlighterPen | PenClass string

type_synonym pen_mapping = "int \<Rightarrow> penclass option"

text \<open>The call \<open>log.error("Unknown pen code %d" % pen)\<close>.\<close>

datatype log_record = Error_unknown_pen_code int

text \<open>
  The calls \<open>penclass(vector=vector, layer=self, color=pencolor)\<close> and
  \<open>qpen.paint_stroke(canvas, stroke)\<close>, recorded on the canvas.
\<close>

record paint_event =
  ev_penclass :: penclass
  ev_vector :: bool
  ev_color :: rgb
  ev_stroke :: stroke

record paint_state =
  canvas :: "paint_event list"
  log :: "log_record list"

text \<open>
  One turn of the loop of \<open>paint_strokes\<close>. The local variable \<open>pencolor\<close> is
  \<open>None\<close> while it is unbound; the branch for an unknown pen code does not assign it,
  so it keeps the binding of the turn before. An exception leaves with the state
  reached.
\<close>

definition paint_stroke_step ::
  "pen_mapping \<Rightarrow> ('k, 'g) document_page_layer \<Rightarrow> bool \<Rightarrow> rgb option \<times> paint_state \<Rightarrow> stroke
     \<Rightarrow> py_error \<times> paint_state + rgb option \<times> paint_state" where
  "paint_stroke_step PEN_MAPPING self vector st stroke =
     (let pencolor = fst st; s = snd st
      in case
           (case PEN_MAPPING (st_pen stroke) of
              None \<Rightarrow>
                Inr (GenericPen, pencolor,
                     s\<lparr>log := log s @ [Error_unknown_pen_code (st_pen stroke)]\<rparr>)
            | Some penclass \<Rightarrow>
                (case py_index (if penclass = HighlighterPen then dl_highlight_colors self
                                else dl_colors self) (st_color stroke) of
                   Inl e \<Rightarrow> Inl (e, s)
                 | Inr c \<Rightarrow> Inr (penclass, Some c, s)))
         of
           Inl e \<Rightarrow> Inl e
         | Inr (penclass, pencolor', s') \<Rightarrow>
             (case pencolor' of
                None \<Rightarrow> Inl (UnboundLocalError, s')
              | Some c \<Rightarrow>
                  Inr (pencolor',
                       s'\<lparr>canvas := canvas s' @
                            [\<lparr>ev_penclass = penclass, ev_vector = vector,
                              ev_color = c, ev_stroke = stroke\<rparr>]\<rparr>)))"

fun paint_strokes_loop ::
  "pen_mapping \<Rightarrow> ('k, 'g) document_page_layer \<Rightarrow> bool \<Rightarrow> rgb option \<times> paint_state \<Rightarrow> stroke list
     \<Rightarrow> py_error \<times> paint_state + paint_state" where
  "paint_strokes_loop PEN_MAPPING self vector st [] = Inr (snd st)"
| "paint_strokes_loop PEN_MAPPING self vector st (stroke # rest) =
     (case paint_stroke_step PEN_MAPPING self vector st stroke of
        Inl e \<Rightarrow> Inl e
      | Inr st' \<Rightarrow> paint_strokes_loop PEN_MAPPING self vector st' rest)"

text \<open>Iterating over \<open>self.strokes\<close> while it is still \<open>None\<close> is a \<open>TypeError\<close>.\<close>

definition paint_strokes ::
  "pen_mapping \<Rightarrow> ('k, 'g) document_page_layer \<Rightarrow> paint_state \<Rightarrow> bool
     \<Rightarrow> py_error \<times> paint_state + paint_state" where
  "paint_strokes PEN_MAPPING self s vector =
     (case dl_strokes self of
        None \<Rightarrow> Inl (TypeError, s)
      | Some strokes \<Rightarrow> paint_strokes_loop PEN_MAPPING self vector (None, s) strokes)"

text \<open>
  \<open>render_to_painter\<close>: with \<open>vector\<close> it paints and returns; without, it reaches
  \<open>assert False\<close>.
\<close>

definition render_to_painter ::
  "pen_mapping \<Rightarrow> ('k, 'g) document_page_layer \<Rightarrow> paint_state \<Rightarrow> bool
     \<Rightarrow> py_error \<times> paint_state + paint_state" where
  "render_to_painter PEN_MAPPING self painter vector =
     (if vector then paint_strokes PEN_MAPPING self painter vector
      else Inl (AssertionError, painter))"

section \<open>Loading a page: \<open>DocumentPage.__init__\<close> and \<open>load_layers\<close>\<close>

text \<open>
  A file of the source is given by what the readers outside \<open>document.py\<close> return
  on it: \<open>lines.getVersion\<close>, \<open>rmscene.read_blocks\<close>, the layer list of
  \<open>lines.readLines\<close>; for a JSON file the truth value of the loaded object, the
  value of \<open>json['layers'][i]['name']\<close> (\<open>None\<close> when the lookup raises) and the
  layer list of \<open>lines.readHighlights\<close>; for a text file \<open>read().splitlines()\<close>.
  The readers themselves are taken not to raise.
\<close>

record src_file =
  f_version :: int
  f_blocks :: "block list"
  f_lines :: "stroke list list"
  f_truthy :: bool
  f_layer_name :: "nat \<Rightarrow> string option"
  f_highlights :: "stroke list list"
  f_splitlines :: "string list"

text \<open>
  A source maps the paths it holds to files. \<open>source.exists\<close> tests the path;
  \<open>source.open\<close> on a path the source does not hold raises.
\<close>

type_synonym source = "string \<Rightarrow> src_file option"

definition source_exists :: "source \<Rightarrow> string \<Rightarrow> bool" where
  "source_exists src path = (src path \<noteq> None)"

definition source_open :: "source \<Rightarrow> string \<Rightarrow> py_error + src_file" where
  "source_open src path =
     (case src path of None \<Rightarrow> Inl FileNotFoundError | Some f \<Rightarrow> Inr f)"

text \<open>Python's \<open>str\<close> on a natural number.\<close>

definition digit_char :: "nat \<Rightarrow> char" where
  "digit_char d = char_of (of_char (CHR ''0'') + d)"

fun str_nat :: "nat \<Rightarrow> string" where
  "str_nat n = (if n < 10 then [digit_char n] else str_nat (n div 10) @ [digit_char (n mod 10)])"

declare str_nat.simps [simp del]

text \<open>
  The value of \<open>template_name\<close>: \<open>None\<close>, a string, or the one-element list
  \<open>[k]\<close> that the \<open>IndexError\<close> handler assigns. Whether
  \<open>TEMPLATE_PATH / f'{template_name}.svg'\<close> exists is a parameter.
\<close>

datatype template_name = TemplateNone | TemplateStr string | TemplateList nat

text \<open>
  The variable \<open>pagelayers\<close>: \<open>Layer\<close> tuples from \<open>get_layers\<close> for version 6,
  stroke lists from \<open>lines.readLines\<close> otherwise.
\<close>

datatype pagelayers = V6Layers "layer list" | LegacyLayers "stroke list list"

record ('k, 'g) document_page =
  pg_source :: source
  pg_num :: nat
  pg_rmpath :: string
  pg_version :: int
  pg_metadict :: "src_file option"
  pg_highlightdict :: "src_file option"
  pg_template :: "template_name option"
  pg_layers :: "('k, 'g) document_page_layer list"

text \<open>
  Python's \<open>list(map(f, xs, ys))\<close>: it stops at the end of the shorter list. Here
  \<open>f\<close> may raise.
\<close>

fun py_map2 :: "('a \<Rightarrow> 'b \<Rightarrow> py_error + 'c) \<Rightarrow> 'a list \<Rightarrow> 'b list \<Rightarrow> py_error + 'c list" where
  "py_map2 f (x # xs) (y # ys) =
     (case f x y of
        Inl e \<Rightarrow> Inl e
      | Inr z \<Rightarrow> (case py_map2 f xs ys of Inl e \<Rightarrow> Inl e | Inr zs \<Rightarrow> Inr (z # zs)))"
| "py_map2 f xs ys = Inr []"

text \<open>\<open>operator.add\<close> on two Python lists.\<close>

definition list_add :: "'a list \<Rightarrow> 'a list \<Rightarrow> py_error + 'a list" where
  "list_add xs ys = Inr (xs @ ys)"

text \<open>
  Lines 184 to 189 of \<open>load_layers\<close>: the merge with the highlight layers. For
  version 6 the left operand of \<open>add\<close> is a \<open>Layer\<close>, whose \<open>+\<close> is defined with
  the tuple in \<open>rmrl.lines\<close>; it is the parameter \<open>layer_add\<close>.
\<close>

definition merge_highlights ::
  "(layer \<Rightarrow> stroke list \<Rightarrow> py_error + layer) \<Rightarrow> src_file option \<Rightarrow> pagelayers
     \<Rightarrow> py_error + pagelayers" where
  "merge_highlights layer_add highlightdict pagelayers =
     (case highlightdict of
        None \<Rightarrow> Inr pagelayers
      | Some h \<Rightarrow>
          if \<not> f_truthy h then Inr pagelayers
          else
            (case pagelayers of
               V6Layers ls \<Rightarrow>
                 (case py_map2 layer_add ls (f_highlights h) of
                    Inl e \<Rightarrow> Inl e | Inr ms \<Rightarrow> Inr (V6Layers ms))
             | LegacyLayers ls \<Rightarrow>
                 (case py_map2 list_add ls (f_highlights h) of
                    Inl e \<Rightarrow> Inl e | Inr ms \<Rightarrow> Inr (LegacyLayers ms))))"

text \<open>
  The name of layer \<open>i\<close> on the legacy path: \<open>self.metadict['layers'][i]['name']\<close>,
  and \<open>'Layer ' + str(i+1)\<close> when that raises (also when \<open>metadict\<close> is \<open>None\<close>).
\<close>

definition legacy_layer_name :: "src_file option \<Rightarrow> nat \<Rightarrow> string" where
  "legacy_layer_name metadict i =
     (case (case metadict of None \<Rightarrow> None | Some m \<Rightarrow> f_layer_name m i) of
        Some name \<Rightarrow> name
      | None \<Rightarrow> ''Layer '' @ str_nat (i + 1))"

definition with_strokes ::
  "('k, 'g) document_page_layer \<Rightarrow> stroke list \<Rightarrow> ('k, 'g) document_page_layer" where
  "with_strokes l layerstrokes = l\<lparr>dl_strokes := Some layerstrokes\<rparr>"

text \<open>Lines 191 to 204: one \<open>DocumentPageLayer\<close> for each entry of \<open>pagelayers\<close>.\<close>

definition load_layer_data ::
  "src_file option \<Rightarrow> pagelayers \<Rightarrow> ('k, 'g) document_page_layer list" where
  "load_layer_data metadict pagelayers =
     (case pagelayers of
        V6Layers ls \<Rightarrow>
          map (\<lambda>l. with_strokes (DocumentPageLayer (l_name l)) (l_strokes l)) ls
      | LegacyLayers ls \<Rightarrow>
          map (\<lambda>i. with_strokes (DocumentPageLayer (legacy_layer_name metadict i)) (ls ! i))
            [0 ..< length ls])"

definition load_layers ::
  "(layer \<Rightarrow> stroke list \<Rightarrow> py_error + layer) \<Rightarrow> ('k, 'g) document_page
     \<Rightarrow> py_error + ('k, 'g) document_page" where
  "load_layers layer_add self =
     (if \<not> source_exists (pg_source self) (pg_rmpath self) then Inr self
      else
        (case source_open (pg_source self) (pg_rmpath self) of
           Inl e \<Rightarrow> Inl e
         | Inr f \<Rightarrow>
             (let pagelayers =
                    (if pg_version self = 6 then V6Layers (get_layers (f_blocks f))
                     else LegacyLayers (f_lines f))
              in case merge_highlights layer_add (pg_highlightdict self) pagelayers of
                   Inl e \<Rightarrow> Inl e
                 | Inr merged \<Rightarrow>
                     Inr (self\<lparr>pg_layers :=
                            pg_layers self @ load_layer_data (pg_metadict self) merged\<rparr>))))"

text \<open>Lines 68 to 95 of \<open>__init__\<close>: the choice of the template.\<close>

definition resolve_template ::
  "(template_name \<Rightarrow> bool) \<Rightarrow> source \<Rightarrow> int \<Rightarrow> nat \<Rightarrow> template_name
     \<Rightarrow> template_name option" where
  "resolve_template template_exists src ver num template_name =
     (if ver = 6 then
        (if template_name \<noteq> TemplateStr ''Blank'' \<and> template_exists template_name
         then Some template_name else None)
      else
        (let template_names =
               (case src ''{ID}.pagedata'' of None \<Rightarrow> [] | Some f \<Rightarrow> f_splitlines f)
         in if template_names = [] then None
            else
              (let name = (if num < length template_names then TemplateStr (template_names ! num)
                           else TemplateList (min num (length template_names - 1)))
               in if name \<noteq> TemplateStr ''Blank'' \<and> template_exists name
                  then Some name else None)))"

definition DocumentPage ::
  "(layer \<Rightarrow> stroke list \<Rightarrow> py_error + layer) \<Rightarrow> (template_name \<Rightarrow> bool) \<Rightarrow>
     source \<Rightarrow> string \<Rightarrow> nat \<Rightarrow> template_name \<Rightarrow> py_error + ('k, 'g) document_page" where
  "DocumentPage layer_add template_exists src pid pagenum template_name =
     (let pidhighlights = pid;
          pid' = (if \<not> source_exists src (''{ID}/'' @ pid @ ''.rm'') then str_nat pagenum else pid);
          rmpath = ''{ID}/'' @ pid' @ ''.rm''
      in case source_open src rmpath of
           Inl e \<Rightarrow> Inl e
         | Inr f \<Rightarrow>
             load_layers layer_add
               \<lparr> pg_source = src, pg_num = pagenum, pg_rmpath = rmpath,
                 pg_version = f_version f,
                 pg_metadict = src (''{ID}/'' @ pid' @ ''-metadata.json''),
                 pg_highlightdict = src (''{ID}.highlights/'' @ pidhighlights @ ''.json''),
                 pg_template =
                   resolve_template template_exists src (f_version f) pagenum template_name,
                 pg_layers = [] \<rparr>)"

section \<open>Notions of the specification\<close>

text \<open>
  The number of group blocks whose label differs from the current layer name, the
  current name being \<open>cur\<close> at the start of the stream.
\<close>

fun label_transitions :: "string \<Rightarrow> block list \<Rightarrow> nat" where
  "label_transitions cur [] = 0"
| "label_transitions cur (TreeNodeBlock label # bs) =
     (if cur = label then label_transitions cur bs else Suc (label_transitions label bs))"
| "label_transitions cur (b # bs) = label_transitions cur bs"

text \<open>
  The adapter as the specification words it: a group block whose label differs from the
  current name seals the accumulator into a layer named with the previous label and
  starts a new accumulator under the new label; a line item with a payload appends a
  stroke; every other block is skipped; the end of the stream seals the last accumulator.
\<close>

fun seal_layers :: "string \<Rightarrow> stroke list \<Rightarrow> block list \<Rightarrow> layer list" where
  "seal_layers cur acc [] = [\<lparr>l_strokes = acc, l_name = cur\<rparr>]"
| "seal_layers cur acc (TreeNodeBlock label # bs) =
     (if cur = label then seal_layers cur acc bs
      else \<lparr>l_strokes = acc, l_name = cur\<rparr> # seal_layers label [] bs)"
| "seal_layers cur acc (SceneLineItemBlock (Some v) # bs) =
     seal_layers cur (acc @ [make_stroke v]) bs"
| "seal_layers cur acc (b # bs) = seal_layers cur acc bs"

text \<open>
  A shape \<open>p\<close> placed after a group \<open>g\<close> does not fit it: the test of the inner
  loop of \<open>grouping_func\<close> fails on the pair.
\<close>

definition unfit :: "('g \<Rightarrow> 'g \<Rightarrow> bool) \<Rightarrow> 'k \<times> 'g \<Rightarrow> 'k \<times> 'g \<Rightarrow> bool" where
  "unfit intersects g p = (\<not> (fst g = fst p \<and> intersects (snd p) (snd g)))"

text \<open>No two entries of the same kind have intersecting geometry.\<close>

definition separated :: "('g \<Rightarrow> 'g \<Rightarrow> bool) \<Rightarrow> ('k \<times> 'g) list \<Rightarrow> bool" where
  "separated intersects xs =
     (\<forall>i<length xs. \<forall>j<length xs.
        i \<noteq> j \<and> fst (xs ! i) = fst (xs ! j) \<longrightarrow> \<not> intersects (snd (xs ! i)) (snd (xs ! j)))"

section \<open>Sample inputs\<close>

definition sample_value :: line_value where
  "sample_value =
     \<lparr> lv_color = 0, lv_tool = 2,
       lv_points = [\<lparr>p_x = 0, p_y = 0, p_speed = 3, p_direction = 5, p_width = 4,
                     p_pressure = 7\<rparr>],
       lv_thickness_scale = 2 \<rparr>"

definition sample_blocks :: "block list" where
  "sample_blocks =
     [ SceneLineItemBlock (Some sample_value), TreeNodeBlock ''A'',
       SceneLineItemBlock None, TreeNodeBlock ''A'', OtherBlock ''X'',
       SceneLineItemBlock (Some sample_value), TreeNodeBlock ''B'' ]"

text \<open>
  Three squares of one kind: the first two intersect, the third lies apart from both,
  inside the bounding rectangle of their union.
\<close>

definition three_squares :: "(string \<times> region) list" where
  "three_squares =
     [ (''Highlight'', [(0, 0, 1, 1)]), (''Highlight'', [(0.5, 0.5, 1, 1)]),
       (''Highlight'', [(1.2, 0, 0.3, 0.3)]) ]"

definition two_groups :: "(string \<times> region) list" where
  "two_groups =
     [ (''Highlight'', [(0, 0, 1, 1), (0.5, 0.5, 1, 1)]),
       (''Highlight'', [(1.2, 0, 0.3, 0.3)]) ]"

definition sample_stroke :: "int \<Rightarrow> int \<Rightarrow> stroke" where
  "sample_stroke pen color =
     \<lparr> st_pen = pen, st_color = color, st_unk1 = None, st_width = 2, st_unk2 = None,
       st_segments = [] \<rparr>"

text \<open>A pen dictionary with a ballpoint pen under code 2 and the highlighter under 5.\<close>

definition sample_pens :: pen_mapping where
  "sample_pens code =
     (if code = 2 then Some (PenClass ''BallpointPen'')
      else if code = 5 then Some HighlighterPen
      else None)"

definition sample_layer :: "stroke list \<Rightarrow> (string, region) document_page_layer" where
  "sample_layer strokes = with_strokes (DocumentPageLayer ''Layer 1'') strokes"

definition blank :: paint_state where
  "blank = \<lparr>canvas = [], log = []\<rparr>"

definition empty_file :: src_file where
  "empty_file =
     \<lparr> f_version = 0, f_blocks = [], f_lines = [], f_truthy = False,
       f_layer_name = (\<lambda>i. None), f_highlights = [], f_splitlines = [] \<rparr>"

text \<open>A version 5 stroke file with three layers, and highlight files with two and three.\<close>

definition legacy_rm :: src_file where
  "legacy_rm =
     empty_file\<lparr> f_version := 5,
       f_lines := [[sample_stroke 2 0], [sample_stroke 2 1], [sample_stroke 2 2]] \<rparr>"

definition highlights_two :: src_file where
  "highlights_two =
     empty_file\<lparr> f_truthy := True,
       f_highlights := [[sample_stroke 5 1], [sample_stroke 5 3]] \<rparr>"

definition highlights_three :: src_file where
  "highlights_three =
     empty_file\<lparr> f_truthy := True,
       f_highlights := [[sample_stroke 5 1], [sample_stroke 5 3], [sample_stroke 5 4]] \<rparr>"

definition sample_source :: "src_file \<Rightarrow> source" where
  "sample_source hl path =
     (if path = ''{ID}/abc.rm'' then Some legacy_rm
      else if path = ''{ID}.highlights/abc.json'' then Some hl
      else None)"

text \<open>
  The \<open>+\<close> of a \<open>Layer\<close>. \<open>document.py\<close> builds a \<open>Layer\<close> from two
  positional values and unpacks it as a pair, as it does with a tuple; Python's \<open>+\<close> on
  a tuple and a list raises \<open>TypeError\<close>.
\<close>

definition tuple_add :: "layer \<Rightarrow> stroke list \<Rightarrow> py_error + layer" where
  "tuple_add l strokes = Inl TypeError"

definition sample_page :: "src_file \<Rightarrow> py_error + (string, region) document_page" where
  "sample_page hl =
     DocumentPage tuple_add (\<lambda>t. False) (sample_source hl) ''abc'' 0 TemplateNone"

text \<open>The page of \<open>sample_source\<close> as \<open>__init__\<close> hands it to \<open>load_layers\<close>.\<close>

definition legacy_page :: "src_file \<Rightarrow> (string, region) document_page" where
  "legacy_page hl =
     \<lparr> pg_source = sample_source hl, pg_num = 0, pg_rmpath = ''{ID}/abc.rm'',
       pg_version = 5, pg_metadict = None, pg_highlightdict = Some hl,
       pg_template = None, pg_layers = [] \<rparr>"

text \<open>
  A version 6 stroke file whose blocks give three layers, in a source that also holds a
  highlight file for the page.
\<close>

definition v6_rm :: src_file where
  "v6_rm =
     empty_file\<lparr> f_version := 6,
       f_blocks := [ TreeNodeBlock ''A'', SceneLineItemBlock (Some sample_value),
                     TreeNodeBlock ''B'', TreeNodeBlock ''C'' ] \<rparr>"

definition three_layers :: "layer list" where
  "three_layers =
     [ \<lparr>l_strokes = [make_stroke sample_value], l_name = ''A''\<rparr>,
       \<lparr>l_strokes = [], l_name = ''B''\<rparr>,
       \<lparr>l_strokes = [], l_name = ''C''\<rparr> ]"

definition v6_source :: "src_file \<Rightarrow> source" where
  "v6_source hl path =
     (if path = ''{ID}/abc.rm'' then Some v6_rm
      else if path = ''{ID}.highlights/abc.json'' then Some hl
      else None)"

definition v6_page :: "src_file \<Rightarrow> py_error + (string, region) document_page" where
  "v6_page hl =
     DocumentPage tuple_add (\<lambda>t. False) (v6_source hl) ''abc'' 0 TemplateNone"

text \<open>The stroke lists of the layers of a loaded page.\<close>

definition page_strokes ::
  "py_error + ('k, 'g) document_page \<Rightarrow> py_error + stroke list option list" where
  "page_strokes r = (case r of Inl e \<Rightarrow> Inl e | Inr p \<Rightarrow> Inr (map dl_strokes (pg_layers p)))"

section \<open>Properties of the version 6 adapter\<close>

lemma get_layers_loop_seal:
  "layers (get_layers_loop s bs) @
     [\<lparr>l_strokes = current_strokes (get_layers_loop s bs),
       l_name = current_layer (get_layers_loop s bs)\<rparr>]
   = layers s @ seal_layers (current_layer s) (current_strokes s) bs"
proof (induction bs arbitrary: s)
  case Nil
  show ?case by simp
next
  case (Cons b bs)
  show ?case
  proof (cases b)
    case (SceneLineItemBlock v)
    then show ?thesis using Cons.IH by (cases v) simp_all
  next
    case (TreeNodeBlock label)
    then show ?thesis using Cons.IH by simp
  next
    case (OtherBlock cls)
    then show ?thesis using Cons.IH by simp
  qed
qed

lemma length_seal_layers:
  "length (seal_layers cur acc bs) = Suc (label_transitions cur bs)"
  by (induction cur acc bs rule: seal_layers.induct) simp_all

lemma hd_seal_layers: "l_name (hd (seal_layers cur acc bs)) = cur"
  by (induction cur acc bs rule: seal_layers.induct) simp_all

lemma get_layers_sealed_eq: "get_layers_sealed bs = seal_layers [] [] bs"
  using get_layers_loop_seal [of gl_init bs]
  by (simp add: get_layers_sealed_def Let_def gl_init_def)

text \<open>
  C1. For a version 6 block stream with N group blocks whose label differs from the
  current layer name, \<open>get_layers\<close> returns exactly N layers. The list built by the
  loop and the final append is the one the specification describes (a layer sealed under
  the previous label at each such group block, the last accumulator sealed at the end);
  it has N + 1 entries, its first entry carries the initial empty label, and the result
  is that list without its first entry.
\<close>

theorem get_layers_layer_count:
  "length (get_layers bs) = label_transitions [] bs \<and>
   get_layers_sealed bs = seal_layers [] [] bs \<and>
   length (get_layers_sealed bs) = Suc (label_transitions [] bs) \<and>
   l_name (hd (get_layers_sealed bs)) = [] \<and>
   get_layers_sealed bs = hd (get_layers_sealed bs) # get_layers bs"
proof -
  have n: "length (seal_layers [] [] bs) = Suc (label_transitions [] bs)"
    by (rule length_seal_layers)
  then have "seal_layers [] [] bs \<noteq> []" by auto
  then have "seal_layers [] [] bs = hd (seal_layers [] [] bs) # tl (seal_layers [] [] bs)"
    by simp
  then show ?thesis
    using n by (simp add: get_layers_def get_layers_sealed_eq hd_seal_layers drop_Suc)
qed

theorem get_layers_layer_count_witness:
  "label_transitions [] sample_blocks = 2 \<and>
   get_layers sample_blocks =
     [ \<lparr>l_strokes = [make_stroke sample_value], l_name = ''A''\<rparr>,
       \<lparr>l_strokes = [], l_name = ''B''\<rparr> ] \<and>
   hd (get_layers_sealed sample_blocks) =
     \<lparr>l_strokes = [make_stroke sample_value], l_name = []\<rparr>"
  using get_layers_layer_count [of sample_blocks]
  by (simp add: sample_blocks_def get_layers_def get_layers_sealed_def gl_init_def)

text \<open>
  C2. \<open>to_segment\<close> maps a device point to the segment with
  \<open>x = 0.7 * x_dev + 1404/2 - 40\<close>, \<open>y = 0.7 * y_dev\<close> and
  \<open>width = width_dev / 4\<close>, and carries pressure, speed and direction through. The
  point \<open>(x = 0, y = 0, width = 4)\<close> goes to \<open>(x = 1404/2 - 40, y = 0, width = 1)\<close>,
  and a point with \<open>x = 1404\<close> goes to \<open>x = 0.7 * 1404 + 1404/2 - 40\<close>.
\<close>

theorem to_segment_transform:
  "to_segment pt =
     \<lparr> seg_x = 0.7 * p_x pt + 1404 / 2 - 40, seg_y = 0.7 * p_y pt,
       seg_speed = p_speed pt, seg_direction = p_direction pt,
       seg_width = p_width pt / 4, seg_pressure = p_pressure pt \<rparr> \<and>
   to_segment (pt\<lparr>p_x := 0, p_y := 0, p_width := 4\<rparr>) =
     \<lparr> seg_x = 1404 / 2 - 40, seg_y = 0,
       seg_speed = p_speed pt, seg_direction = p_direction pt,
       seg_width = 1, seg_pressure = p_pressure pt \<rparr> \<and>
   seg_x (to_segment (pt\<lparr>p_x := 1404\<rparr>)) = 0.7 * 1404 + 1404 / 2 - 40"
  by (simp add: to_segment_def)

theorem to_segment_transform_witness:
  "map to_segment (lv_points sample_value) =
     [\<lparr> seg_x = 662, seg_y = 0, seg_speed = 3, seg_direction = 5, seg_width = 1,
        seg_pressure = 7 \<rparr>]"
  using to_segment_transform [of "hd (lv_points sample_value)"]
  by (simp add: sample_value_def)

section \<open>Properties of the annotation clustering\<close>

lemma fit_group_None_iff:
  "fit_group I U p gs = None \<longleftrightarrow> (\<forall>g\<in>set gs. unfit I g p)"
  by (induction gs) (auto simp: unfit_def)

text \<open>A pass that keeps the length fitted nothing: it returns its input.\<close>

lemma grouping_pass_full:
  "length (grouping_pass I U ns ps) = length ns + length ps \<Longrightarrow>
   grouping_pass I U ns ps = ns @ ps \<and>
   (sorted_wrt (unfit I) ns \<longrightarrow> sorted_wrt (unfit I) (ns @ ps))"
proof (induction ps arbitrary: ns)
  case Nil
  show ?case by simp
next
  case (Cons p ps)
  show ?case
  proof (cases "fit_group I U p ns")
    case None
    have len: "length (grouping_pass I U (ns @ [p]) ps) = length (ns @ [p]) + length ps"
      using Cons.prems None by simp
    have nf: "\<forall>g\<in>set ns. unfit I g p"
      using None by (simp add: fit_group_None_iff)
    from Cons.IH [OF len] nf None show ?thesis
      by (auto simp: sorted_wrt_append)
  next
    case (Some fitted)
    have "length (grouping_pass I U fitted ps) \<le> length fitted + length ps"
      by (rule grouping_pass_length_le)
    moreover have "length fitted = length ns"
      by (rule fit_group_length [OF Some])
    ultimately have False using Cons.prems Some by simp
    then show ?thesis ..
  qed
qed

lemma grouping_pass_separated:
  "sorted_wrt (unfit I) (ns @ ps) \<Longrightarrow> grouping_pass I U ns ps = ns @ ps"
proof (induction ps arbitrary: ns)
  case Nil
  show ?case by simp
next
  case (Cons p ps)
  have "\<forall>g\<in>set ns. unfit I g p"
    using Cons.prems by (auto simp: sorted_wrt_append)
  then have None: "fit_group I U p ns = None"
    by (simp add: fit_group_None_iff)
  have "sorted_wrt (unfit I) ((ns @ [p]) @ ps)"
    using Cons.prems by simp
  from Cons.IH [OF this] None show ?case by simp
qed

lemma grouping_func_fixed:
  "grouping_pass I U [] (grouping_func I U ps) = grouping_func I U ps \<and>
   sorted_wrt (unfit I) (grouping_func I U ps)"
proof (induction I U ps rule: grouping_func.induct)
  case (1 I U ps)
  show ?case
  proof (cases "length (grouping_pass I U [] ps) = length ps")
    case True
    then have eq: "grouping_func I U ps = grouping_pass I U [] ps"
      by (subst grouping_func.simps) (simp add: Let_def)
    from grouping_pass_full [of I U "[]" ps] True
    have "grouping_pass I U [] ps = ps" and "sorted_wrt (unfit I) ps" by simp_all
    then show ?thesis using eq by simp
  next
    case False
    then have eq: "grouping_func I U ps = grouping_func I U (grouping_pass I U [] ps)"
      by (subst grouping_func.simps) (simp add: Let_def)
    from "1.IH" [OF refl False] show ?thesis using eq by simp
  qed
qed

lemma grouping_fixed_once:
  assumes "grouping_pass I U [] xs = xs"
  shows "grouping_func I U xs = xs" and "grouping_calls I U xs = 1"
proof -
  show "grouping_func I U xs = xs"
    using assms by (subst grouping_func.simps) (simp add: Let_def)
  show "grouping_calls I U xs = 1"
    using assms by (subst grouping_calls.simps) (simp add: Let_def)
qed

lemma grouping_func_Nil: "grouping_func I U [] = []"
  by (subst grouping_func.simps) simp

lemma separated_imp_sorted:
  "separated I xs \<Longrightarrow> sorted_wrt (unfit I) xs"
  unfolding separated_def sorted_wrt_iff_nth_less unfit_def
  by (metis dual_order.strict_trans less_irrefl)

lemma sorted_imp_separated:
  assumes sym: "\<And>a b. I a b = I b a" and s: "sorted_wrt (unfit I) xs"
  shows "separated I xs"
  unfolding separated_def
proof (intro allI impI)
  fix i j
  assume i: "i < length xs" and j: "j < length xs"
    and h: "i \<noteq> j \<and> fst (xs ! i) = fst (xs ! j)"
  show "\<not> I (snd (xs ! i)) (snd (xs ! j))"
  proof (cases "i < j")
    case True
    then have "unfit I (xs ! i) (xs ! j)"
      using s j by (simp add: sorted_wrt_iff_nth_less)
    then show ?thesis using h sym [of "snd (xs ! i)"] by (simp add: unfit_def)
  next
    case False
    then have "j < i" using h by simp
    then have "unfit I (xs ! j) (xs ! i)"
      using s i by (simp add: sorted_wrt_iff_nth_less)
    then show ?thesis using h by (simp add: unfit_def)
  qed
qed

lemma rect_intersects_sym: "rect_intersects r s = rect_intersects s r"
  by (auto simp: rect_intersects_def split: prod.splits)

lemma region_intersects_sym: "region_intersects a b = region_intersects b a"
  unfolding region_intersects_def list_ex_iff
  using rect_intersects_sym by blast

lemma grouping_three_squares:
  "grouping_func region_intersects region_united three_squares = two_groups"
  by (simp add: grouping_func.simps three_squares_def two_groups_def Let_def
      region_intersects_def rect_intersects_def region_united_def)

lemma separated_two_groups: "separated region_intersects two_groups"
  by (simp add: two_groups_def separated_def region_intersects_def rect_intersects_def
      less_Suc_eq)

text \<open>
  C3, as the code has it. The clustering returns for every list of shapes. In its result
  no group intersects a group of the same kind placed before it, in the direction the
  code tests; when \<open>intersects\<close> is symmetric, no two groups of the same kind
  intersect. The exported list holds the bounding rectangle of each group as
  \<open>(kind, x, y, x + width, y + height)\<close>, and an empty shape list gives an empty
  list. Nothing keeps the bounding rectangles of two groups apart.
\<close>

theorem grouping_separates:
  fixes ps :: "('k \<times> 'g) list" and self :: "('k, 'g) document_page_layer"
  shows
  "sorted_wrt (unfit intersects) (grouping_func intersects united ps) \<and>
   ((\<forall>a b. intersects a b = intersects b a) \<longrightarrow>
      separated intersects (grouping_func intersects united ps)) \<and>
   grouping_func intersects united ([] :: ('k \<times> 'g) list) = [] \<and>
   get_grouped_annotations intersects united boundingRect self =
     (dl_name self, map (annot_of boundingRect)
        (grouping_func intersects united (dl_annot_paths self))) \<and>
   get_grouped_annotations intersects united boundingRect (self\<lparr>dl_annot_paths := []\<rparr>) =
     (dl_name self, [])"
proof -
  have s: "sorted_wrt (unfit intersects) (grouping_func intersects united ps)"
    using grouping_func_fixed [of intersects united ps] by simp
  have "(\<forall>a b. intersects a b = intersects b a) \<longrightarrow>
      separated intersects (grouping_func intersects united ps)"
    using sorted_imp_separated [OF _ s] by blast
  with s show ?thesis
    by (simp add: get_grouped_annotations_def Let_def grouping_func_Nil)
qed

theorem grouping_separates_witness:
  "(\<forall>a b. region_intersects a b = region_intersects b a) \<and>
   grouping_func region_intersects region_united three_squares = two_groups \<and>
   separated region_intersects two_groups"
  using grouping_separates
    [of region_intersects region_united three_squares region_boundingRect
       "DocumentPageLayer []"]
    region_intersects_sym grouping_three_squares
  by simp

text \<open>
  C3 as stated fails on the exported boxes: of the three squares, the first two are
  merged and the third is a group of its own, and the box of the third lies inside the
  box of the merged group.
\<close>

theorem grouped_boxes_overlap:
  "get_grouped_annotations region_intersects region_united region_boundingRect
     ((DocumentPageLayer ''Layer 1'')\<lparr>dl_annot_paths := three_squares\<rparr>) =
     (''Layer 1'', [(''Highlight'', 0, 0, 1.5, 1.5), (''Highlight'', 1.2, 0, 1.5, 0.3)]) \<and>
   boxes_overlap (''Highlight'', 0, 0, 1.5, 1.5) (''Highlight'', 1.2, 0, 1.5, 0.3)"
  by (simp add: get_grouped_annotations_def grouping_three_squares two_groups_def Let_def
      annot_of_def region_boundingRect_def boxes_overlap_def DocumentPageLayer_def)

text \<open>
  C4. Clustering is idempotent: on its own output \<open>grouping_func\<close> returns that
  output, the first pass leaves it as it is, and the function is entered once. The same
  holds on every list in which no two shapes of the same kind intersect.
\<close>

theorem grouping_idempotent:
  "grouping_func intersects united (grouping_func intersects united ps) =
     grouping_func intersects united ps \<and>
   grouping_pass intersects united [] (grouping_func intersects united ps) =
     grouping_func intersects united ps \<and>
   grouping_calls intersects united (grouping_func intersects united ps) = 1 \<and>
   (separated intersects xs \<longrightarrow>
      grouping_pass intersects united [] xs = xs \<and>
      grouping_func intersects united xs = xs \<and>
      grouping_calls intersects united xs = 1)"
proof -
  have f: "grouping_pass intersects united [] (grouping_func intersects united ps) =
      grouping_func intersects united ps"
    using grouping_func_fixed [of intersects united ps] by simp
  have g: "grouping_pass intersects united [] xs = xs" if "separated intersects xs"
    using grouping_pass_separated [of intersects "[]" xs united]
      separated_imp_sorted [OF that] by simp
  show ?thesis
    using f grouping_fixed_once [OF f] g grouping_fixed_once [OF g] by simp
qed

theorem grouping_idempotent_witness:
  "separated region_intersects two_groups \<and>
   grouping_func region_intersects region_united two_groups = two_groups \<and>
   grouping_calls region_intersects region_united two_groups = 1 \<and>
   grouping_func region_intersects region_united
     (grouping_func region_intersects region_united three_squares) = two_groups"
  using grouping_idempotent [of region_intersects region_united three_squares two_groups]
    separated_two_groups grouping_three_squares
  by simp

section \<open>Properties of the highlight merge\<close>

lemma py_map2_list_add: "py_map2 list_add xs ys = Inr (map2 (@) xs ys)"
proof (induction xs arbitrary: ys)
  case Nil
  show ?case by simp
next
  case (Cons x xs)
  then show ?case by (cases ys) (simp_all add: list_add_def)
qed

lemma load_layer_data_legacy_strokes:
  "map dl_strokes (load_layer_data md (LegacyLayers ls) :: ('k, 'g) document_page_layer list)
     = map Some ls"
  by (rule nth_equalityI)
     (simp_all add: load_layer_data_def with_strokes_def DocumentPageLayer_def)

lemma merge_highlights_legacy:
  "f_truthy h \<Longrightarrow> merge_highlights layer_add (Some h) (LegacyLayers ls) =
     Inr (LegacyLayers (map2 (@) ls (f_highlights h)))"
  by (simp add: merge_highlights_def py_map2_list_add)

lemma merge_highlights_none:
  "highlightdict = None \<or> (\<exists>h. highlightdict = Some h \<and> \<not> f_truthy h) \<Longrightarrow>
   merge_highlights layer_add highlightdict pagelayers = Inr pagelayers"
  by (auto simp: merge_highlights_def)

lemma load_layers_merged:
  assumes "pg_source self (pg_rmpath self) = Some f"
    and "merge_highlights layer_add (pg_highlightdict self)
           (if pg_version self = 6 then V6Layers (get_layers (f_blocks f))
            else LegacyLayers (f_lines f)) = Inr merged"
  shows "load_layers layer_add self =
     Inr (self\<lparr>pg_layers := pg_layers self @ load_layer_data (pg_metadict self) merged\<rparr>)"
  using assms by (simp add: load_layers_def source_exists_def source_open_def)

lemma sample_page_loaded:
  assumes "merge_highlights tuple_add (Some hl) (LegacyLayers (f_lines legacy_rm)) =
      Inr (LegacyLayers ms)"
  shows "page_strokes (sample_page hl) = Inr (map Some ms)"
proof -
  have v: "f_version legacy_rm \<noteq> 6"
    by (simp add: legacy_rm_def empty_file_def)
  show ?thesis
    using assms v
    by (simp add: sample_page_def DocumentPage_def source_exists_def source_open_def
        sample_source_def Let_def load_layers_merged [where f = legacy_rm]
        page_strokes_def load_layer_data_legacy_strokes)
qed

text \<open>
  C5, as the code has it. On a legacy page (a version other than 6, whose layers are
  stroke lists) with a highlight source, the merge raises no error whatever the lengths
  of the two lists: \<open>map\<close> stops at the end of the shorter list, the merged list has
  the length of the shorter one, and its layer \<open>i\<close> is the primary layer \<open>i\<close>
  followed by the highlight layer \<open>i\<close>. \<open>load_layers\<close> makes one layer of each
  entry of the merged list.
\<close>

theorem merge_highlights_truncates:
  fixes self :: "('k, 'g) document_page"
  assumes "f_truthy h"
  shows "merge_highlights layer_add (Some h) (LegacyLayers ls) =
      Inr (LegacyLayers (map2 (@) ls (f_highlights h))) \<and>
    length (map2 (@) ls (f_highlights h)) = min (length ls) (length (f_highlights h)) \<and>
    (\<forall>i < min (length ls) (length (f_highlights h)).
       map2 (@) ls (f_highlights h) ! i = ls ! i @ f_highlights h ! i) \<and>
    (pg_source self (pg_rmpath self) = Some f \<and> pg_version self \<noteq> 6 \<and>
     pg_highlightdict self = Some h \<longrightarrow>
       page_strokes (load_layers layer_add self) =
         Inr (map dl_strokes (pg_layers self) @
              map Some (map2 (@) (f_lines f) (f_highlights h))))"
proof -
  have "page_strokes (load_layers layer_add self) =
         Inr (map dl_strokes (pg_layers self) @
              map Some (map2 (@) (f_lines f) (f_highlights h)))"
    if p: "pg_source self (pg_rmpath self) = Some f" "pg_version self \<noteq> 6"
      "pg_highlightdict self = Some h"
  proof -
    have "merge_highlights layer_add (pg_highlightdict self)
           (if pg_version self = 6 then V6Layers (get_layers (f_blocks f))
            else LegacyLayers (f_lines f)) =
          Inr (LegacyLayers (map2 (@) (f_lines f) (f_highlights h)))"
      using p assms by (simp add: merge_highlights_legacy)
    from load_layers_merged [OF p(1) this] show ?thesis
      by (simp add: page_strokes_def load_layer_data_legacy_strokes)
  qed
  then show ?thesis
    using assms by (simp add: merge_highlights_legacy)
qed

theorem merge_highlights_truncates_witness:
  "f_truthy highlights_two \<and>
   pg_source (legacy_page highlights_two) (pg_rmpath (legacy_page highlights_two)) =
     Some legacy_rm \<and>
   pg_version (legacy_page highlights_two) \<noteq> 6 \<and>
   pg_highlightdict (legacy_page highlights_two) = Some highlights_two \<and>
   merge_highlights tuple_add (Some highlights_two) (LegacyLayers (f_lines legacy_rm)) =
     Inr (LegacyLayers
       [[sample_stroke 2 0, sample_stroke 5 1], [sample_stroke 2 1, sample_stroke 5 3]]) \<and>
   page_strokes (load_layers tuple_add (legacy_page highlights_two)) =
     Inr [Some [sample_stroke 2 0, sample_stroke 5 1],
          Some [sample_stroke 2 1, sample_stroke 5 3]]"
proof -
  have t: "f_truthy highlights_two"
    by (simp add: highlights_two_def empty_file_def)
  have p: "pg_source (legacy_page highlights_two) (pg_rmpath (legacy_page highlights_two)) =
      Some legacy_rm"
    "pg_version (legacy_page highlights_two) \<noteq> 6"
    "pg_highlightdict (legacy_page highlights_two) = Some highlights_two"
    "pg_layers (legacy_page highlights_two) = []"
    by (simp_all add: legacy_page_def sample_source_def)
  have m: "map2 (@) (f_lines legacy_rm) (f_highlights highlights_two) =
      [[sample_stroke 2 0, sample_stroke 5 1], [sample_stroke 2 1, sample_stroke 5 3]]"
    by (simp add: highlights_two_def legacy_rm_def empty_file_def)
  note w = merge_highlights_truncates [OF t, where layer_add = tuple_add
      and ls = "f_lines legacy_rm" and self = "legacy_page highlights_two" and f = legacy_rm]
  from w p have
    "merge_highlights tuple_add (Some highlights_two) (LegacyLayers (f_lines legacy_rm)) =
       Inr (LegacyLayers (map2 (@) (f_lines legacy_rm) (f_highlights highlights_two)))"
    "page_strokes (load_layers tuple_add (legacy_page highlights_two)) =
       Inr (map dl_strokes (pg_layers (legacy_page highlights_two)) @
            map Some (map2 (@) (f_lines legacy_rm) (f_highlights highlights_two)))"
    by blast+
  with t p show ?thesis
    by (simp add: m)
qed

text \<open>
  C5 as stated fails: a version 5 page with three primary layers and a highlight file
  with two layers loads, with two layers, and no error is raised.
\<close>

theorem merge_mismatch_loads:
  "length (f_lines legacy_rm) = 3 \<and> length (f_highlights highlights_two) = 2 \<and>
   page_strokes (sample_page highlights_two) =
     Inr [Some [sample_stroke 2 0, sample_stroke 5 1],
          Some [sample_stroke 2 1, sample_stroke 5 3]] \<and>
   page_strokes (sample_page highlights_two) \<noteq> Inl FormatMismatch"
proof -
  have "merge_highlights tuple_add (Some highlights_two) (LegacyLayers (f_lines legacy_rm)) =
      Inr (LegacyLayers
        [[sample_stroke 2 0, sample_stroke 5 1], [sample_stroke 2 1, sample_stroke 5 3]])"
    by (simp add: merge_highlights_legacy highlights_two_def legacy_rm_def empty_file_def)
  from sample_page_loaded [OF this] show ?thesis
    by (simp add: highlights_two_def legacy_rm_def empty_file_def)
qed

lemma get_layers_v6_rm: "get_layers (f_blocks v6_rm) = three_layers"
  by (simp add: v6_rm_def empty_file_def three_layers_def get_layers_def
      get_layers_sealed_def gl_init_def)

lemma merge_highlights_three_layers:
  "merge_highlights tuple_add (Some highlights_three) (V6Layers three_layers) = Inl TypeError"
  by (simp add: merge_highlights_def highlights_three_def empty_file_def three_layers_def
      tuple_add_def)

text \<open>
  C6 at a failing input. A version 6 page with three layers and a highlight file with
  three layers: the merge applies \<open>add\<close> to a \<open>Layer\<close> and a list of strokes, which
  raises \<open>TypeError\<close>, so the page does not load and nothing is merged. The same
  highlight file on the version 5 page, whose layers are lists, is merged layer by layer.
\<close>

theorem v6_highlight_merge_raises:
  "get_layers (f_blocks v6_rm) = three_layers \<and>
   length (f_highlights highlights_three) = length three_layers \<and>
   merge_highlights tuple_add (Some highlights_three) (V6Layers three_layers) =
     Inl TypeError \<and>
   page_strokes (v6_page highlights_three) = Inl TypeError \<and>
   page_strokes (sample_page highlights_three) =
     Inr [Some [sample_stroke 2 0, sample_stroke 5 1],
          Some [sample_stroke 2 1, sample_stroke 5 3],
          Some [sample_stroke 2 2, sample_stroke 5 4]]"
proof -
  have l: "length (f_highlights highlights_three) = length three_layers"
    by (simp add: highlights_three_def three_layers_def)
  have v: "page_strokes (v6_page highlights_three) = Inl TypeError"
    by (simp add: v6_page_def DocumentPage_def source_exists_def source_open_def
        v6_source_def Let_def load_layers_def get_layers_v6_rm
        merge_highlights_three_layers page_strokes_def)
      (simp add: v6_rm_def empty_file_def)
  have "merge_highlights tuple_add (Some highlights_three)
      (LegacyLayers (f_lines legacy_rm)) =
      Inr (LegacyLayers
        [[sample_stroke 2 0, sample_stroke 5 1], [sample_stroke 2 1, sample_stroke 5 3],
         [sample_stroke 2 2, sample_stroke 5 4]])"
    by (simp add: merge_highlights_legacy highlights_three_def legacy_rm_def empty_file_def)
  from sample_page_loaded [OF this] l v show ?thesis
    by (simp add: get_layers_v6_rm merge_highlights_three_layers)
qed

section \<open>Properties of the pen dispatch\<close>

text \<open>Python's list indexing accepts the codes from \<open>-n\<close> up to \<open>n - 1\<close>.\<close>

lemma py_index_cases:
  "py_index xs i =
     (if - int (length xs) \<le> i \<and> i < int (length xs)
      then Inr (xs ! nat (i mod int (length xs))) else Inl IndexError)"
proof (cases "0 \<le> i")
  case True
  then show ?thesis by (simp add: py_index_def)
next
  case False
  have "i mod int (length xs) = int (length xs) + i" if "- int (length xs) \<le> i"
  proof -
    have "(i + int (length xs)) mod int (length xs) = i + int (length xs)"
      using that False by (intro mod_pos_pos_trivial) simp_all
    then show ?thesis by (simp add: add.commute)
  qed
  with False show ?thesis by (simp add: py_index_def)
qed

lemma paint_strokes_unknown_first:
  "PEN_MAPPING (st_pen stroke) = None \<Longrightarrow> dl_strokes self = Some (stroke # rest) \<Longrightarrow>
   paint_strokes PEN_MAPPING self s vector =
     Inl (UnboundLocalError, s\<lparr>log := log s @ [Error_unknown_pen_code (st_pen stroke)]\<rparr>)"
  by (simp add: paint_strokes_def paint_stroke_step_def Let_def)

text \<open>
  C7 at a failing input. A layer whose first stroke has the pen code 99, which the pen
  dictionary does not hold: \<open>paint_strokes\<close> logs the code once, takes
  \<open>GenericPen\<close>, and then reads \<open>pencolor\<close>, which no turn has bound; the stroke is
  not painted. After a stroke with a known pen the same stroke is painted, with the
  colour of the stroke before it.
\<close>

theorem paint_strokes_unknown_pen_raises:
  "paint_strokes sample_pens (sample_layer [sample_stroke 99 0]) blank True =
     Inl (UnboundLocalError, \<lparr>canvas = [], log = [Error_unknown_pen_code 99]\<rparr>) \<and>
   paint_strokes sample_pens (sample_layer [sample_stroke 2 7, sample_stroke 99 0]) blank True =
     Inr \<lparr>canvas =
            [ \<lparr>ev_penclass = PenClass ''BallpointPen'', ev_vector = True,
                ev_color = (Some (228/255), Some (95/255), Some (89/255)),
                ev_stroke = sample_stroke 2 7\<rparr>,
              \<lparr>ev_penclass = GenericPen, ev_vector = True,
                ev_color = (Some (228/255), Some (95/255), Some (89/255)),
                ev_stroke = sample_stroke 99 0\<rparr> ],
          log = [Error_unknown_pen_code 99]\<rparr>"
  by (simp add: paint_strokes_def sample_layer_def with_strokes_def DocumentPageLayer_def
      paint_stroke_step_def sample_pens_def sample_stroke_def blank_def Let_def py_index_def
      colors_def)

text \<open>
  C8, as the code has it. For a stroke whose pen code the dictionary holds, the colour
  code indexes the highlight table (6 entries) when the class is \<open>HighlighterPen\<close>
  and the standard table (8 entries) otherwise. With a table of \<open>n\<close> entries, a code
  from \<open>-n\<close> to \<open>n - 1\<close> selects an entry, the negative ones counting from the end,
  and the stroke is painted with it; any other code raises \<open>IndexError\<close>, and nothing
  is painted.
\<close>

theorem pen_color_lookup:
  fixes self :: "('k, 'g) document_page_layer"
  assumes "PEN_MAPPING (st_pen stroke) = Some pc"
    and "table = (if pc = HighlighterPen then dl_highlight_colors self else dl_colors self)"
  shows
  "length (dl_colors (DocumentPageLayer name :: ('k, 'g) document_page_layer)) = 8 \<and>
   length (dl_highlight_colors (DocumentPageLayer name :: ('k, 'g) document_page_layer)) = 6 \<and>
   paint_stroke_step PEN_MAPPING self vector (pencolor, s) stroke =
     (if - int (length table) \<le> st_color stroke \<and> st_color stroke < int (length table)
      then Inr (Some (table ! nat (st_color stroke mod int (length table))),
                s\<lparr>canvas := canvas s @
                     [\<lparr>ev_penclass = pc, ev_vector = vector,
                       ev_color = table ! nat (st_color stroke mod int (length table)),
                       ev_stroke = stroke\<rparr>]\<rparr>)
      else Inl (IndexError, s))"
  using assms
  by (simp add: paint_stroke_step_def Let_def py_index_cases DocumentPageLayer_def colors_def
      highlight_colors_def)

theorem pen_color_lookup_witness:
  "sample_pens (st_pen (sample_stroke 5 (-1))) = Some HighlighterPen \<and>
   paint_stroke_step sample_pens (sample_layer []) True (None, blank) (sample_stroke 5 (-1)) =
     Inr (Some (Some (248/255), Some (79/255), Some (145/255)),
          \<lparr>canvas =
             [\<lparr>ev_penclass = HighlighterPen, ev_vector = True,
               ev_color = (Some (248/255), Some (79/255), Some (145/255)),
               ev_stroke = sample_stroke 5 (-1)\<rparr>],
           log = []\<rparr>)"
proof -
  have m: "sample_pens (st_pen (sample_stroke 5 (-1))) = Some HighlighterPen"
    by (simp add: sample_pens_def sample_stroke_def)
  have c: "st_color (sample_stroke 5 (-1)) = -1"
    by (simp add: sample_stroke_def)
  have t: "dl_highlight_colors (sample_layer []) = highlight_colors"
    by (simp add: sample_layer_def with_strokes_def DocumentPageLayer_def)
  have n: "length highlight_colors = 6" "highlight_colors ! 5 =
      (Some (248/255), Some (79/255), Some (145/255))"
    by (simp_all add: highlight_colors_def)
  show ?thesis
    using pen_color_lookup [where PEN_MAPPING = sample_pens and stroke = "sample_stroke 5 (-1)"
        and pc = HighlighterPen and table = highlight_colors and self = "sample_layer []"
        and vector = True and pencolor = None and s = blank and name = "[]"] m t
    by (simp add: c n blank_def)
qed

text \<open>
  C8 as stated fails: the colour code 8 with a ballpoint pen, and the colour code 6 with
  the highlighter, leave \<open>paint_strokes\<close> with \<open>IndexError\<close>, not with
  \<open>FormatMismatch\<close>.
\<close>

theorem color_out_of_range_index_error:
  "paint_strokes sample_pens (sample_layer [sample_stroke 2 8]) blank True =
     Inl (IndexError, blank) \<and>
   paint_strokes sample_pens (sample_layer [sample_stroke 5 6]) blank True =
     Inl (IndexError, blank) \<and>
   paint_strokes sample_pens (sample_layer [sample_stroke 2 8]) blank True \<noteq>
     Inl (FormatMismatch, blank)"
  by (simp add: paint_strokes_def sample_layer_def with_strokes_def DocumentPageLayer_def
      paint_stroke_step_def sample_pens_def sample_stroke_def blank_def Let_def py_index_def
      colors_def highlight_colors_def)

text \<open>
  C10. \<open>render_to_painter\<close> paints the strokes exactly when \<open>vector\<close> is true:
  then it is \<open>paint_strokes\<close>; with \<open>vector\<close> false it raises
  \<open>AssertionError\<close> and the painter is as it was.
\<close>

theorem render_to_painter_vector_only:
  "render_to_painter PEN_MAPPING self painter False = Inl (AssertionError, painter) \<and>
   render_to_painter PEN_MAPPING self painter True =
     paint_strokes PEN_MAPPING self painter True"
  by (simp add: render_to_painter_def)

theorem render_to_painter_vector_only_witness:
  "render_to_painter sample_pens (sample_layer [sample_stroke 2 7]) blank False =
     Inl (AssertionError, blank) \<and>
   render_to_painter sample_pens (sample_layer [sample_stroke 2 7]) blank True =
     Inr \<lparr>canvas =
            [\<lparr>ev_penclass = PenClass ''BallpointPen'', ev_vector = True,
              ev_color = (Some (228/255), Some (95/255), Some (89/255)),
              ev_stroke = sample_stroke 2 7\<rparr>],
          log = []\<rparr>"
  using render_to_painter_vector_only [of sample_pens "sample_layer [sample_stroke 2 7]" blank]
  by (simp add: paint_strokes_def sample_layer_def with_strokes_def DocumentPageLayer_def
      paint_stroke_step_def sample_pens_def sample_stroke_def blank_def Let_def py_index_def
      colors_def)

section \<open>Properties of the page constructor\<close>

lemma DocumentPage_rm_missing:
  assumes "src (''{ID}/'' @ pid @ ''.rm'') = None"
    and "src (''{ID}/'' @ str_nat pagenum @ ''.rm'') = None"
  shows "DocumentPage layer_add template_exists src pid pagenum template_name =
    Inl FileNotFoundError"
  using assms by (simp add: DocumentPage_def Let_def source_exists_def source_open_def)

lemma load_layers_rm_missing:
  "pg_source self (pg_rmpath self) = None \<Longrightarrow> load_layers layer_add self = Inr self"
  by (simp add: load_layers_def source_exists_def)

text \<open>
  C9 at a failing input. In a source that holds the stroke file neither under the page
  identifier nor under the page number, \<open>__init__\<close> opens the file to read its
  version, and that raises: no page is constructed. The test in \<open>load_layers\<close>, which
  would leave such a page without layers, is never reached from the constructor.
\<close>

theorem DocumentPage_rm_missing_raises:
  "DocumentPage layer_add template_exists
     (src(''{ID}/'' @ pid @ ''.rm'' := None, ''{ID}/'' @ str_nat pagenum @ ''.rm'' := None))
     pid pagenum template_name = Inl FileNotFoundError \<and>
   load_layers layer_add (self\<lparr>pg_source := (pg_source self)(pg_rmpath self := None)\<rparr>) =
     Inr (self\<lparr>pg_source := (pg_source self)(pg_rmpath self := None)\<rparr>)"
proof
  show "DocumentPage layer_add template_exists
     (src(''{ID}/'' @ pid @ ''.rm'' := None, ''{ID}/'' @ str_nat pagenum @ ''.rm'' := None))
     pid pagenum template_name = Inl FileNotFoundError"
    by (rule DocumentPage_rm_missing) (simp_all only: fun_upd_apply if_cancel refl if_True)
  show "load_layers layer_add (self\<lparr>pg_source := (pg_source self)(pg_rmpath self := None)\<rparr>) =
     Inr (self\<lparr>pg_source := (pg_source self)(pg_rmpath self := None)\<rparr>)"
    by (rule load_layers_rm_missing) simp
qed

end
